theory Spec2Isabelle
  imports Main
begin

section \<open>Data model of drivers/input/ir/ir-configfs.c\<close>

text \<open>
  The file keeps a configfs tree: the subsystem \<open>input_ir_remotes\<close> holds remotes, a
  remote holds keymaps. Objects live on the kernel heap and are known by their addresses;
  the model keeps the address of each object in a field, so that two objects with equal
  contents stay distinct the way two pointers do.
\<close>

text \<open>\<open>struct keymap\<close>: the configfs item (its name and address) and the four integers.\<close>

record keymap =
  ci_name :: string
  ci_addr :: nat
  protocol :: int
  device :: int
  command :: int
  keycode :: int

text \<open>
  \<open>struct input_dev\<close>, as far as this file touches it: the fields \<open>make_remote\<close>
  assigns and the key capability bitmap \<open>keybit\<close>, a set of bit numbers.
  \<open>dev_addr\<close> is the pointer value that \<open>remote->input\<close> holds.
\<close>

record input_dev =
  dev_addr :: nat
  id_bustype :: nat
  dev_name :: string
  phys :: string
  evbit0 :: "nat set"
  keybit :: "int set"

text \<open>
  \<open>struct remote\<close>: the configfs group (name, address and the list \<open>cg_children\<close> of
  its keymaps, in list order) and the input device it owns.
\<close>

record remote =
  cg_name :: string
  cg_addr :: nat
  input :: input_dev
  cg_children :: "keymap list"

section \<open>Translation: \<open>input_ir_translate\<close>\<close>

text \<open>
  The function returns nothing; what it does is a sequence of calls into the input layer
  and on the subsystem mutex. The model returns that sequence. Devices are named by their
  addresses.
\<close>

datatype ir_code = IR_PROTOCOL | IR_DEVICE | IR_COMMAND

datatype call =
    Input_report_ir nat ir_code int
  | Input_report_key nat int int
  | Input_sync nat
  | Mutex_lock
  | Mutex_unlock

text \<open>The condition of the \<open>if\<close> in the inner loop.\<close>

definition tuple_eq :: "keymap \<Rightarrow> int \<Rightarrow> int \<Rightarrow> int \<Rightarrow> bool" where
  "tuple_eq km p d c \<longleftrightarrow> protocol km = p \<and> device km = d \<and> command km = c"

text \<open>
  The inner \<open>list_for_each_entry\<close> over \<open>g->cg_children\<close>: \<open>js\<close> is the part of the
  list still to visit.
\<close>

fun scan_keymaps :: "remote \<Rightarrow> keymap list \<Rightarrow> int \<Rightarrow> int \<Rightarrow> int \<Rightarrow> call list" where
  "scan_keymaps g [] p d c = []"
| "scan_keymaps g (j # js) p d c =
     (if tuple_eq j p d c
      then [Input_report_key (dev_addr (input g)) (keycode j) 1,
            Input_sync (dev_addr (input g))]
      else [])
     @ scan_keymaps g js p d c"

text \<open>The outer \<open>list_for_each_entry\<close> over the children of the subsystem's group.\<close>

fun scan_remotes :: "remote list \<Rightarrow> int \<Rightarrow> int \<Rightarrow> int \<Rightarrow> call list" where
  "scan_remotes [] p d c = []"
| "scan_remotes (i # is) p d c = scan_keymaps i (cg_children i) p d c @ scan_remotes is p d c"

text \<open>
  \<open>input_ir_translate(dev, protocol, device, command)\<close>; \<open>remotes\<close> is
  \<open>input_ir_remotes.su_group.cg_children\<close> and \<open>dev\<close> the address of the source device.
\<close>

definition input_ir_translate :: "remote list \<Rightarrow> nat \<Rightarrow> int \<Rightarrow> int \<Rightarrow> int \<Rightarrow> call list" where
  "input_ir_translate remotes dev p d c =
     [Input_report_ir dev IR_PROTOCOL p,
      Input_report_ir dev IR_DEVICE d,
      Input_report_ir dev IR_COMMAND c,
      Input_sync dev,
      Mutex_lock]
     @ scan_remotes remotes p d c
     @ [Mutex_unlock]"

text \<open>Recognisers for the calls of a trace.\<close>

fun is_report_key :: "call \<Rightarrow> bool" where
  "is_report_key (Input_report_key h k v) = True"
| "is_report_key _ = False"

text \<open>The key-down and sync an entry \<open>e\<close> of group \<open>g\<close> stands for.\<close>

definition key_down :: "remote \<Rightarrow> keymap \<Rightarrow> call list" where
  "key_down g e = [Input_report_key (dev_addr (input g)) (keycode e) 1,
                   Input_sync (dev_addr (input g))]"

section \<open>Constants of headers outside this file\<close>

text \<open>
  \<open>KEY_MAX\<close> (linux/input.h) and the width of \<open>unsigned long\<close> are fixed by headers
  and by the target, not by this file. They are parameters of the model: every function
  that depends on them takes the platform as its first argument.
\<close>

record platform =
  KEY_MAX :: nat
  BITS_PER_LONG :: nat

text \<open>\<open>int\<close> has 32 bits on every Linux target.\<close>

definition INT_MAX :: nat where
  "INT_MAX = 2147483647"

definition EINVAL :: int where
  "EINVAL = 22"

definition ERANGE :: int where
  "ERANGE = 34"

definition ENOMEM :: int where
  "ENOMEM = 12"

definition EEXIST :: int where
  "EEXIST = 17"

definition BUS_VIRTUAL :: nat where
  "BUS_VIRTUAL = 6"

definition EV_KEY :: nat where
  "EV_KEY = 1"

section \<open>Library routines the attribute code calls\<close>

definition isdigit :: "char \<Rightarrow> bool" where
  "isdigit ch \<longleftrightarrow> 48 \<le> (of_char ch :: nat) \<and> (of_char ch :: nat) \<le> 57"

definition digit_value :: "char \<Rightarrow> nat" where
  "digit_value ch = of_char ch - 48"

text \<open>
  Modelled from the spec: \<open>simple_strtoul\<close> is the kernel's string-to-number routine
  (lib/vsprintf.c), which is not among the source files. The spec (4.4) has the write
  parse a non-negative decimal integer; the call passes base 10 and an end pointer. The
  model reads the leading run of decimal digits, accumulating \<open>result * 10 + digit\<close> in
  \<open>unsigned long\<close> arithmetic, and returns the value together with the unread rest of
  the string, which is what the end pointer \<open>p\<close> points at afterwards. No sign and no
  leading blank is accepted, and an empty run of digits gives 0 with nothing consumed.
\<close>

fun strtoul_loop :: "nat \<Rightarrow> nat \<Rightarrow> string \<Rightarrow> nat \<times> string" where
  "strtoul_loop bits result [] = (result, [])"
| "strtoul_loop bits result (ch # cp) =
     (if isdigit ch
      then strtoul_loop bits ((result * 10 + digit_value ch) mod 2 ^ bits) cp
      else (result, ch # cp))"

definition simple_strtoul :: "platform \<Rightarrow> string \<Rightarrow> nat \<times> string" where
  "simple_strtoul pf cp = strtoul_loop (BITS_PER_LONG pf) 0 cp"

text \<open>
  Modelled from the spec: \<open>sprintf\<close> with the format \<open>"%d\n"\<close> (lib/vsprintf.c, not
  among the source files); the spec (4.4) has a read render the field as its decimal
  string. \<open>dec_digits\<close> is the decimal numeral of a natural number without leading
  zeros, \<open>sprintf_d\<close> the output for the format: an optional minus sign, the digits and
  the newline of the format string.
\<close>

fun dec_digits :: "nat \<Rightarrow> string" where
  "dec_digits n =
     (if n < 10 then [''0123456789'' ! n]
      else dec_digits (n div 10) @ [''0123456789'' ! (n mod 10)])"

declare dec_digits.simps [simp del]

definition sprintf_d :: "int \<Rightarrow> string" where
  "sprintf_d i =
     (if i < 0 then CHR ''-'' # dec_digits (nat (- i)) else dec_digits (nat i)) @ [CHR 0x0A]"

section \<open>Kernel services: allocator and input core\<close>

text \<open>
  What the kernel holds on behalf of this file: the addresses handed out by \<open>kzalloc\<close>
  and not yet given back, the input devices allocated and not yet freed, and the input
  devices registered with the input core.
\<close>

record kernel =
  kmem :: "nat set"
  input_devs :: "nat set"
  input_registered :: "nat set"

text \<open>
  Modelled from the spec: \<open>kzalloc\<close> and \<open>kfree\<close> (the kernel allocator, not among the
  source files); the spec speaks of allocating a group and of releasing it fully. Whether
  an allocation succeeds, and at which address, is the allocator's answer and an input of
  the model: \<open>None\<close> is the null pointer.
\<close>

definition kzalloc :: "kernel \<Rightarrow> nat option \<Rightarrow> nat option \<times> kernel" where
  "kzalloc k answer =
     (case answer of
        None \<Rightarrow> (None, k)
      | Some a \<Rightarrow> (Some a, k\<lparr>kmem := insert a (kmem k)\<rparr>))"

definition kfree :: "kernel \<Rightarrow> nat \<Rightarrow> kernel" where
  "kfree k a = k\<lparr>kmem := kmem k - {a}\<rparr>"

text \<open>
  Modelled from the spec: the endpoint operations \<open>allocate\<close>, \<open>register\<close> and \<open>free\<close>
  of section 6, which are \<open>input_allocate_device\<close>, \<open>input_register_device\<close> and
  \<open>input_free_device\<close> of drivers/input/input.c, not among the source files. A new
  device is zeroed. The answer of the host input system to a registration is an input of
  the model: 0 registers the device, any other value is the error code and registers
  nothing. Freeing gives the device back; unregistering is a separate operation of the
  endpoint (\<open>unregister\<close> in section 6), which this file never calls.
\<close>

definition input_allocate_device :: "kernel \<Rightarrow> nat option \<Rightarrow> input_dev option \<times> kernel" where
  "input_allocate_device k answer =
     (case answer of
        None \<Rightarrow> (None, k)
      | Some h \<Rightarrow>
          (Some \<lparr>dev_addr = h, id_bustype = 0, dev_name = [], phys = [],
                 evbit0 = {}, keybit = {}\<rparr>,
           k\<lparr>input_devs := insert h (input_devs k)\<rparr>))"

definition input_register_device :: "kernel \<Rightarrow> input_dev \<Rightarrow> int \<Rightarrow> int \<times> kernel" where
  "input_register_device k dev answer =
     (if answer = 0
      then (0, k\<lparr>input_registered := insert (dev_addr dev) (input_registered k)\<rparr>)
      else (answer, k))"

definition input_free_device :: "kernel \<Rightarrow> input_dev \<Rightarrow> kernel" where
  "input_free_device k dev = k\<lparr>input_devs := input_devs k - {dev_addr dev}\<rparr>"

section \<open>Keymap attributes: \<open>item_show\<close>, \<open>item_store\<close>, \<open>keymap_release\<close>, \<open>make_keymap\<close>\<close>

text \<open>The four \<open>configfs_attribute\<close> objects the code compares \<open>attr\<close> with.\<close>

datatype attr = item_protocol | item_device | item_command | item_keycode

text \<open>\<open>item_show\<close>: the text written to \<open>page\<close>; the return value is its length.\<close>

definition item_show :: "keymap \<Rightarrow> attr \<Rightarrow> string" where
  "item_show km a =
     (if a = item_protocol then sprintf_d (protocol km)
      else if a = item_device then sprintf_d (device km)
      else if a = item_command then sprintf_d (command km)
      else sprintf_d (keycode km))"

text \<open>
  \<open>item_store(item, attr, page, count)\<close>. Through \<open>item\<close> the code reaches the keymap
  and, by \<open>item->ci_parent\<close>, the input device of the remote that owns it: these two are
  the state the function reads and writes. \<open>page\<close> is the text up to its terminating
  zero. The result is \<open>Inl\<close> of the negative error code or \<open>Inr count\<close>.
  The end pointer is never null, so \<open>!p\<close> is false; \<open>*p\<close> is zero when the rest is empty.
  A write comes through the attribute file of an entry that is linked in its group,
  so \<open>ci_parent\<close> is that group here.
\<close>

definition item_store ::
  "platform \<Rightarrow> input_dev \<times> keymap \<Rightarrow> attr \<Rightarrow> string \<Rightarrow> nat \<Rightarrow> (int + nat) \<times> input_dev \<times> keymap" where
  "item_store pf item a page count =
     (case item of (dev, km) \<Rightarrow>
      (case simple_strtoul pf page of (tmp, p) \<Rightarrow>
         if p \<noteq> [] \<and> hd p \<noteq> CHR 0x0A then (Inl (- EINVAL), dev, km)
         else if tmp > INT_MAX then (Inl (- ERANGE), dev, km)
         else if a = item_protocol then (Inr count, dev, km\<lparr>protocol := int tmp\<rparr>)
         else if a = item_device then (Inr count, dev, km\<lparr>device := int tmp\<rparr>)
         else if a = item_command then (Inr count, dev, km\<lparr>command := int tmp\<rparr>)
         else if tmp < KEY_MAX pf
           then (Inr count, dev\<lparr>keybit := insert (int tmp) (keybit dev)\<rparr>,
                 km\<lparr>keycode := int tmp\<rparr>)
         else (Inr count, dev, km)))"



text \<open>\<open>make_keymap(group, name)\<close>: a zeroed keymap with the given name.\<close>

definition make_keymap :: "kernel \<Rightarrow> nat option \<Rightarrow> string \<Rightarrow> (int + keymap) \<times> kernel" where
  "make_keymap k answer name =
     (case kzalloc k answer of
        (None, k1) \<Rightarrow> (Inl (- ENOMEM), k1)
      | (Some a, k1) \<Rightarrow>
          (Inr \<lparr>ci_name = name, ci_addr = a, protocol = 0, device = 0, command = 0,
                keycode = 0\<rparr>, k1))"

section \<open>Remotes: \<open>make_remote\<close>, \<open>remote_release\<close>\<close>

text \<open>
  \<open>make_remote(parent, name)\<close>. \<open>mem\<close>, \<open>devmem\<close> and \<open>reg\<close> are the answers of
  \<open>kzalloc\<close>, \<open>input_allocate_device\<close> and \<open>input_register_device\<close>. The labels
  \<open>free_input\<close> and \<open>free_mem\<close> are the two error exits. The function does not touch
  \<open>parent\<close>.
\<close>

definition make_remote ::
  "kernel \<Rightarrow> nat option \<Rightarrow> nat option \<Rightarrow> int \<Rightarrow> string \<Rightarrow> (int + remote) \<times> kernel" where
  "make_remote k mem devmem reg name =
     (case kzalloc k mem of
        (None, k1) \<Rightarrow> (Inl (- ENOMEM), k1)
      | (Some r, k1) \<Rightarrow>
          (case input_allocate_device k1 devmem of
             (None, k2) \<Rightarrow> (Inl (- ENOMEM), kfree k2 r)
           | (Some dev0, k2) \<Rightarrow>
               (let dev = dev0\<lparr>id_bustype := BUS_VIRTUAL, dev_name := name,
                                phys := ''remotes'', evbit0 := {EV_KEY}\<rparr>
                in case input_register_device k2 dev reg of
                     (ret, k3) \<Rightarrow>
                       if ret \<noteq> 0 then (Inl ret, kfree (input_free_device k3 dev) r)
                       else (Inr \<lparr>cg_name = name, cg_addr = r, input = dev,
                                  cg_children = []\<rparr>, k3))))"

text \<open>\<open>remote_release(item)\<close>: frees the input device, then the remote.\<close>

definition remote_release :: "kernel \<Rightarrow> remote \<Rightarrow> kernel" where
  "remote_release k g = kfree (input_free_device k (input g)) (cg_addr g)"

section \<open>Group creation as the namespace mechanism runs it\<close>

text \<open>
  Modelled from the spec: group creation by the namespace mechanism (configfs,
  fs/configfs, not among the source files), section 4.1. \<open>create_group\<close> fails on a
  duplicate name, otherwise runs \<open>make_remote\<close> and inserts the new group, at the tail of
  the subsystem's children. The state is the kernel and the list of remotes.
\<close>

definition create_group ::
  "kernel \<times> remote list \<Rightarrow> nat option \<Rightarrow> nat option \<Rightarrow> int \<Rightarrow> string
     \<Rightarrow> (int + remote) \<times> kernel \<times> remote list" where
  "create_group st mem devmem reg name =
     (case st of (k, remotes) \<Rightarrow>
        if name \<in> set (map cg_name remotes) then (Inl (- EEXIST), k, remotes)
        else case make_remote k mem devmem reg name of
               (Inl err, k1) \<Rightarrow> (Inl err, k1, remotes)
             | (Inr g, k1) \<Rightarrow> (Inr g, k1, remotes @ [g]))"

section \<open>The attribute text as the spec words it\<close>

text \<open>The value of a string of decimal digits.\<close>

definition dec_value :: "string \<Rightarrow> nat" where
  "dec_value ds = foldl (\<lambda>acc ch. acc * 10 + digit_value ch) 0 ds"

text \<open>White space as \<open>isspace\<close> has it: blank, tab, newline, vertical tab, form feed, return.\<close>

definition isspace :: "char \<Rightarrow> bool" where
  "isspace ch \<longleftrightarrow> of_char ch \<in> {32, 9, 10, 11, 12, 13 :: nat}"

text \<open>
  The spec's reading of a malformed write (4.4): the text does not parse as a
  non-negative decimal integer, that is, it does not begin with a digit, or something
  other than white space follows the digits.
\<close>

definition spec_invalid_format :: "string \<Rightarrow> bool" where
  "spec_invalid_format s \<longleftrightarrow>
     takeWhile isdigit s = [] \<or> (\<exists>ch \<in> set (dropWhile isdigit s). \<not> isspace ch)"

section \<open>Example objects\<close>

text \<open>
  A 32-bit target, as the MPC5200 is, with \<open>KEY_MAX = 0x2ff\<close>; a kernel that holds
  nothing yet; and the two groups of the example in section 8 of the spec.
\<close>

definition ppc32 :: platform where
  "ppc32 = \<lparr>KEY_MAX = 767, BITS_PER_LONG = 32\<rparr>"

definition kernel0 :: kernel where
  "kernel0 = \<lparr>kmem = {}, input_devs = {}, input_registered = {}\<rparr>"

definition example_dev :: "nat \<Rightarrow> string \<Rightarrow> int set \<Rightarrow> input_dev" where
  "example_dev h name bits =
     \<lparr>dev_addr = h, id_bustype = BUS_VIRTUAL, dev_name = name, phys = ''remotes'',
      evbit0 = {EV_KEY}, keybit = bits\<rparr>"

definition example_G1 :: remote where
  "example_G1 =
     \<lparr>cg_name = ''G1'', cg_addr = 10, input = example_dev 11 ''G1'' {30},
      cg_children = [\<lparr>ci_name = ''ok'', ci_addr = 12, protocol = 1, device = 2,
                       command = 3, keycode = 30\<rparr>]\<rparr>"

definition example_G2 :: remote where
  "example_G2 =
     \<lparr>cg_name = ''G2'', cg_addr = 20, input = example_dev 21 ''G2'' {31},
      cg_children = [\<lparr>ci_name = ''ok'', ci_addr = 22, protocol = 1, device = 2,
                       command = 3, keycode = 31\<rparr>]\<rparr>"


definition example_two :: remote where
  "example_two =
     \<lparr>cg_name = ''tv'', cg_addr = 30, input = example_dev 31 ''tv'' {},
      cg_children = [\<lparr>ci_name = ''a'', ci_addr = 32, protocol = 0, device = 0,
                       command = 0, keycode = 0\<rparr>,
                     \<lparr>ci_name = ''b'', ci_addr = 33, protocol = 0, device = 0,
                       command = 0, keycode = 0\<rparr>]\<rparr>"


section \<open>Properties of the translation\<close>

lemma scan_keymaps_filter:
  "filter is_report_key (scan_keymaps g js p d c) =
     map (\<lambda>e. Input_report_key (dev_addr (input g)) (keycode e) 1)
         (filter (\<lambda>e. tuple_eq e p d c) js)"
  by (induction js) simp_all

lemma scan_remotes_filter:
  "filter is_report_key (scan_remotes rs p d c) =
     concat (map (\<lambda>g. map (\<lambda>e. Input_report_key (dev_addr (input g)) (keycode e) 1)
                          (filter (\<lambda>e. tuple_eq e p d c) (cg_children g))) rs)"
  by (induction rs) (simp_all add: scan_keymaps_filter)

lemma scan_keymaps_fires:
  assumes "e \<in> set js" and "tuple_eq e p d c"
  shows "\<exists>pre post. scan_keymaps g js p d c = pre @ key_down g e @ post"
  using assms
proof (induction js)
  case Nil
  then show ?case by simp
next
  case (Cons j js)
  show ?case
  proof (cases "e = j")
    case True
    with Cons.prems have "scan_keymaps g (j # js) p d c = [] @ key_down g e @ scan_keymaps g js p d c"
      by (simp add: key_down_def)
    then show ?thesis by blast
  next
    case False
    with Cons obtain pre post where "scan_keymaps g js p d c = pre @ key_down g e @ post"
      by auto
    then have "scan_keymaps g (j # js) p d c =
        ((if tuple_eq j p d c then key_down g j else []) @ pre) @ key_down g e @ post"
      by (simp add: key_down_def)
    then show ?thesis by blast
  qed
qed

lemma scan_remotes_fires:
  assumes "g \<in> set rs" and "e \<in> set (cg_children g)" and "tuple_eq e p d c"
  shows "\<exists>pre post. scan_remotes rs p d c = pre @ key_down g e @ post"
  using assms
proof (induction rs)
  case Nil
  then show ?case by simp
next
  case (Cons r rs)
  show ?case
  proof (cases "g = r")
    case True
    with Cons.prems obtain pre post where
      "scan_keymaps r (cg_children r) p d c = pre @ key_down g e @ post"
      using scan_keymaps_fires by blast
    then have "scan_remotes (r # rs) p d c = pre @ key_down g e @ (post @ scan_remotes rs p d c)"
      by simp
    then show ?thesis by blast
  next
    case False
    with Cons obtain pre post where "scan_remotes rs p d c = pre @ key_down g e @ post"
      by auto
    then have "scan_remotes (r # rs) p d c =
        (scan_keymaps r (cg_children r) p d c @ pre) @ key_down g e @ post"
      by simp
    then show ?thesis by blast
  qed
qed

text \<open>
  C10. Every call of \<open>input_ir_translate\<close> begins with the IR-format event on the source
  device: the reports of protocol, device and command, then a sync, whatever the keymaps
  hold and before the lock is taken or any keymap is looked at.
\<close>

theorem translate_ir_event_first:
  "take 5 (input_ir_translate remotes dev p d c) =
     [Input_report_ir dev IR_PROTOCOL p,
      Input_report_ir dev IR_DEVICE d,
      Input_report_ir dev IR_COMMAND c,
      Input_sync dev,
      Mutex_lock]"
  by (simp add: input_ir_translate_def)

text \<open>
  C1. For every registered remote and every keymap in it whose protocol, device and
  command equal the arguments, the trace of \<open>input_ir_translate\<close> contains the key-down
  report of that keymap's keycode on that remote's input device, immediately followed by
  the sync on the same device. The scan has no early exit: the key reports of the trace
  are exactly those of all matching keymaps of all remotes, in list order. A tuple that
  matches no keymap yields no key report at all.
\<close>

theorem translate_broadcast:
  "(\<forall>g \<in> set remotes. \<forall>e \<in> set (cg_children g). tuple_eq e p d c \<longrightarrow>
      (\<exists>pre post. input_ir_translate remotes dev p d c = pre @ key_down g e @ post))
   \<and> filter is_report_key (input_ir_translate remotes dev p d c) =
       concat (map (\<lambda>g. map (\<lambda>e. Input_report_key (dev_addr (input g)) (keycode e) 1)
                            (filter (\<lambda>e. tuple_eq e p d c) (cg_children g))) remotes)
   \<and> ((\<forall>g \<in> set remotes. \<forall>e \<in> set (cg_children g). \<not> tuple_eq e p d c) \<longrightarrow>
        filter is_report_key (input_ir_translate remotes dev p d c) = [])"
proof (intro conjI ballI impI)
  fix g e
  assume "g \<in> set remotes" and "e \<in> set (cg_children g)" and "tuple_eq e p d c"
  then obtain pre post where "scan_remotes remotes p d c = pre @ key_down g e @ post"
    using scan_remotes_fires by blast
  then have "input_ir_translate remotes dev p d c =
      ([Input_report_ir dev IR_PROTOCOL p, Input_report_ir dev IR_DEVICE d,
        Input_report_ir dev IR_COMMAND c, Input_sync dev, Mutex_lock] @ pre)
      @ key_down g e @ (post @ [Mutex_unlock])"
    by (simp add: input_ir_translate_def)
  then show "\<exists>pre post. input_ir_translate remotes dev p d c = pre @ key_down g e @ post"
    by blast
next
  show "filter is_report_key (input_ir_translate remotes dev p d c) =
       concat (map (\<lambda>g. map (\<lambda>e. Input_report_key (dev_addr (input g)) (keycode e) 1)
                            (filter (\<lambda>e. tuple_eq e p d c) (cg_children g))) remotes)"
    by (simp add: input_ir_translate_def scan_remotes_filter)
next
  assume none: "\<forall>g \<in> set remotes. \<forall>e \<in> set (cg_children g). \<not> tuple_eq e p d c"
  have "filter is_report_key (scan_remotes remotes p d c) = []"
    unfolding scan_remotes_filter using none
    by (induction remotes) (simp_all add: filter_empty_conv)
  then show "filter is_report_key (input_ir_translate remotes dev p d c) = []"
    by (simp add: input_ir_translate_def)
qed

text \<open>Witness of C10 on the two example groups.\<close>

theorem translate_ir_event_first_witness:
  "take 5 (input_ir_translate [example_G1, example_G2] 7 9 9 9) =
     [Input_report_ir 7 IR_PROTOCOL 9, Input_report_ir 7 IR_DEVICE 9,
      Input_report_ir 7 IR_COMMAND 9, Input_sync 7, Mutex_lock]"
  using translate_ir_event_first [of "[example_G1, example_G2]" 7 9 9 9]
  by simp

text \<open>
  Witness of C1: the example of section 8 of the spec. On the tuple (1, 2, 3) both groups
  fire, G1 with key 30 and G2 with key 31; on (9, 9, 9) nothing fires.
\<close>

theorem translate_broadcast_witness:
  "filter is_report_key (input_ir_translate [example_G1, example_G2] 7 1 2 3) =
     [Input_report_key 11 30 1, Input_report_key 21 31 1]
   \<and> (\<exists>pre post. input_ir_translate [example_G1, example_G2] 7 1 2 3 =
         pre @ [Input_report_key 21 31 1, Input_sync 21] @ post)
   \<and> filter is_report_key (input_ir_translate [example_G1, example_G2] 7 9 9 9) = []"
proof -
  let ?e = "\<lparr>ci_name = ''ok'', ci_addr = 22, protocol = 1, device = 2, command = 3,
             keycode = 31\<rparr>"
  have e: "?e \<in> set (cg_children example_G2)"
    by (simp add: example_G2_def)
  have m: "tuple_eq ?e 1 2 3"
    by (simp add: tuple_eq_def)
  have g: "example_G2 \<in> set [example_G1, example_G2]"
    by simp
  have none: "\<forall>g \<in> set [example_G1, example_G2]. \<forall>e \<in> set (cg_children g). \<not> tuple_eq e 9 9 9"
    by (simp add: example_G1_def example_G2_def tuple_eq_def)
  note t = translate_broadcast [of "[example_G1, example_G2]" 1 2 3 7]
  note t9 = translate_broadcast [of "[example_G1, example_G2]" 9 9 9 7]
  from t have "filter is_report_key (input_ir_translate [example_G1, example_G2] 7 1 2 3) =
     [Input_report_key 11 30 1, Input_report_key 21 31 1]"
    by (simp add: example_G1_def example_G2_def example_dev_def tuple_eq_def)
  moreover from t g e m have "\<exists>pre post. input_ir_translate [example_G1, example_G2] 7 1 2 3 =
         pre @ key_down example_G2 ?e @ post"
    by blast
  then have "\<exists>pre post. input_ir_translate [example_G1, example_G2] 7 1 2 3 =
         pre @ [Input_report_key 21 31 1, Input_sync 21] @ post"
    by (simp add: key_down_def example_G2_def example_dev_def)
  moreover from t9 none
  have "filter is_report_key (input_ir_translate [example_G1, example_G2] 7 9 9 9) = []"
    by blast
  ultimately show ?thesis by blast
qed

subsection \<open>Entries whose keycode was never written\<close>

lemma set_scan_keymaps:
  "set (scan_keymaps g js p d c) =
     (\<Union>e \<in> {e \<in> set js. tuple_eq e p d c}.
        {Input_report_key (dev_addr (input g)) (keycode e) 1, Input_sync (dev_addr (input g))})"
  by (induction js) auto

lemma set_scan_remotes:
  "set (scan_remotes rs p d c) =
     (\<Union>g \<in> set rs. \<Union>e \<in> {e \<in> set (cg_children g). tuple_eq e p d c}.
        {Input_report_key (dev_addr (input g)) (keycode e) 1, Input_sync (dev_addr (input g))})"
  by (induction rs) (auto simp add: set_scan_keymaps)

text \<open>
  C4, as amended. The code has no unset keycode: \<open>make_keymap\<close> returns a zeroed
  keymap, whose keycode is 0 and whose tuple is (0, 0, 0), and \<open>input_ir_translate\<close>
  tests the tuple only. A key report for code \<open>kc\<close> on device \<open>h\<close> is in the trace
  exactly when it is a key-down of some entry with an exact tuple match, carrying
  whatever that entry's keycode field holds; so only entries with an exact tuple match
  fire, and an entry whose keycode was never written fires with code 0.
\<close>

theorem translate_fires_on_tuple_alone:
  "(Input_report_key h kc v \<in> set (input_ir_translate remotes dev p d c) \<longleftrightarrow>
      v = 1 \<and> (\<exists>g \<in> set remotes. \<exists>e \<in> set (cg_children g).
                 tuple_eq e p d c \<and> h = dev_addr (input g) \<and> kc = keycode e))
   \<and> make_keymap k (Some a) name =
       (Inr \<lparr>ci_name = name, ci_addr = a, protocol = 0, device = 0, command = 0, keycode = 0\<rparr>,
        k\<lparr>kmem := insert a (kmem k)\<rparr>)"
  by (auto simp add: input_ir_translate_def set_scan_remotes make_keymap_def kzalloc_def)

text \<open>
  Witness of C4 as amended: the never-written entries of \<open>example_two\<close> fire with code 0
  on the tuple (0, 0, 0) and do not fire on (0, 0, 5).
\<close>

theorem translate_fires_on_tuple_alone_witness:
  "Input_report_key 31 0 1 \<in> set (input_ir_translate [example_two] 7 0 0 0)
   \<and> Input_report_key 31 0 1 \<notin> set (input_ir_translate [example_two] 7 0 0 5)"
  using translate_fires_on_tuple_alone [of 31 0 1 "[example_two]" 7 0 0 0 kernel0 32 "''a''"]
    translate_fires_on_tuple_alone [of 31 0 1 "[example_two]" 7 0 0 5 kernel0 32 "''a''"]
  by (simp add: example_two_def example_dev_def tuple_eq_def)

text \<open>
  Counterexample to C4 as stated: the first entry of \<open>example_two\<close> is what
  \<open>make_keymap\<close> returns, its keycode has never been written, and the translation of
  the tuple (0, 0, 0) reports a key-down for it (and for its sibling).
\<close>

theorem translate_unset_keycode_counterexample:
  "fst (make_keymap kernel0 (Some 32) ''a'') = Inr (hd (cg_children example_two))
   \<and> keycode (hd (cg_children example_two)) = 0
   \<and> input_ir_translate [example_two] 7 0 0 0 =
       [Input_report_ir 7 IR_PROTOCOL 0, Input_report_ir 7 IR_DEVICE 0,
        Input_report_ir 7 IR_COMMAND 0, Input_sync 7, Mutex_lock,
        Input_report_key 31 0 1, Input_sync 31,
        Input_report_key 31 0 1, Input_sync 31,
        Mutex_unlock]"
  by (simp add: make_keymap_def kzalloc_def kernel0_def example_two_def example_dev_def
      input_ir_translate_def tuple_eq_def)

section \<open>Reading and printing decimal numbers\<close>

lemma digit_char_code:
  fixes d :: nat
  assumes "d < 10"
  shows "of_char (''0123456789'' ! d) = 48 + d"
proof -
  from assms have "d = 0 \<or> d = 1 \<or> d = 2 \<or> d = 3 \<or> d = 4
      \<or> d = 5 \<or> d = 6 \<or> d = 7 \<or> d = 8 \<or> d = 9"
    by arith
  then show ?thesis by (elim disjE) simp_all
qed

lemma isdigit_digit_char: "d < 10 \<Longrightarrow> isdigit (''0123456789'' ! d)"
  by (simp add: isdigit_def digit_char_code)

lemma digit_value_digit_char: "d < 10 \<Longrightarrow> digit_value (''0123456789'' ! d) = d"
  by (simp add: digit_value_def digit_char_code)

lemma newline_not_digit: "\<not> isdigit (CHR 0x0A)"
  by (simp add: isdigit_def)

lemma strtoul_loop_split:
  "strtoul_loop b acc s =
     (foldl (\<lambda>a ch. (a * 10 + digit_value ch) mod 2 ^ b) acc (takeWhile isdigit s),
      dropWhile isdigit s)"
  by (induction s arbitrary: acc) simp_all

lemma foldl_mod_step:
  fixes m :: nat
  shows "foldl (\<lambda>a ch. (a * 10 + digit_value ch) mod m) (acc mod m) ds =
         foldl (\<lambda>a ch. a * 10 + digit_value ch) acc ds mod m"
proof (induction ds arbitrary: acc)
  case Nil
  then show ?case by simp
next
  case (Cons ch ds)
  have "(acc mod m * 10 + digit_value ch) mod m = (acc * 10 + digit_value ch) mod m"
    by (metis mod_add_left_eq mod_mult_left_eq)
  then show ?case using Cons.IH [of "acc * 10 + digit_value ch"] by simp
qed

lemma simple_strtoul_split:
  "simple_strtoul pf s =
     (dec_value (takeWhile isdigit s) mod 2 ^ BITS_PER_LONG pf, dropWhile isdigit s)"
  using foldl_mod_step [of "2 ^ BITS_PER_LONG pf" 0 "takeWhile isdigit s"]
  by (simp add: simple_strtoul_def strtoul_loop_split dec_value_def)

lemma dec_value_snoc: "dec_value (ds @ [ch]) = dec_value ds * 10 + digit_value ch"
  by (simp add: dec_value_def)

lemma dec_digits_all_digits: "\<forall>ch \<in> set (dec_digits n). isdigit ch"
proof (induction n rule: dec_digits.induct)
  case (1 n)
  show ?case
  proof (cases "n < 10")
    case True
    then show ?thesis by (simp add: dec_digits.simps [of n] isdigit_digit_char)
  next
    case False
    with 1 show ?thesis by (simp add: dec_digits.simps [of n] isdigit_digit_char)
  qed
qed

lemma dec_value_dec_digits: "dec_value (dec_digits n) = n"
proof (induction n rule: dec_digits.induct)
  case (1 n)
  show ?case
  proof (cases "n < 10")
    case True
    then show ?thesis
      by (simp add: dec_digits.simps [of n] dec_value_def digit_value_digit_char)
  next
    case False
    with 1 have "dec_value (dec_digits (n div 10)) = n div 10" by simp
    with False show ?thesis
      by (simp add: dec_digits.simps [of n] dec_value_snoc digit_value_digit_char)
  qed
qed

lemma dec_digits_not_empty: "dec_digits n \<noteq> []"
  by (simp add: dec_digits.simps [of n])

lemma digits_then_rest:
  assumes "rest = [] \<or> \<not> isdigit (hd rest)"
  shows "takeWhile isdigit (dec_digits n @ rest) = dec_digits n"
    and "dropWhile isdigit (dec_digits n @ rest) = rest"
proof -
  have r: "takeWhile isdigit rest = []" "dropWhile isdigit rest = rest"
    using assms by (cases rest; simp)+
  show "takeWhile isdigit (dec_digits n @ rest) = dec_digits n"
    using dec_digits_all_digits [of n] r by (simp add: takeWhile_append2)
  show "dropWhile isdigit (dec_digits n @ rest) = rest"
    using dec_digits_all_digits [of n] r by (simp add: dropWhile_append2)
qed

lemma simple_strtoul_dec_digits:
  assumes "v < 2 ^ BITS_PER_LONG pf" and "rest = [] \<or> \<not> isdigit (hd rest)"
  shows "simple_strtoul pf (dec_digits v @ rest) = (v, rest)"
  using assms by (simp add: simple_strtoul_split digits_then_rest dec_value_dec_digits)

lemma rest_not_digit:
  "rest = [] \<or> hd rest = CHR 0x0A \<Longrightarrow> rest = [] \<or> \<not> isdigit (hd rest)"
  using newline_not_digit by auto

lemma sprintf_d_nat: "sprintf_d (int v) = dec_digits v @ [CHR 0x0A]"
  by (simp add: sprintf_d_def)

lemmas example_evals = item_store_def simple_strtoul_def isdigit_def digit_value_def ppc32_def
  INT_MAX_def example_dev_def

lemma simple_strtoul_dec_digits_mod:
  assumes "rest = [] \<or> \<not> isdigit (hd rest)"
  shows "simple_strtoul pf (dec_digits v @ rest) = (v mod 2 ^ BITS_PER_LONG pf, rest)"
  using assms by (simp add: simple_strtoul_split digits_then_rest dec_value_dec_digits)

section \<open>Attribute writes and reads\<close>

text \<open>
  C7, as amended. Let the digits be the leading run of decimal digits of the text (the
  run may be empty) and \<open>tmp\<close> their value modulo \<open>2 ^ BITS_PER_LONG\<close>, as
  \<open>unsigned long\<close> arithmetic gives it (0 for the empty run). A write fails with
  \<open>-EINVAL\<close> exactly when the character after the digits is neither the end of the
  text nor a newline; only that one character is looked at. Otherwise it fails with
  \<open>-ERANGE\<close> exactly when \<open>tmp\<close> exceeds \<open>INT_MAX\<close>. A failed write changes neither
  the entry nor the device. Otherwise the write returns \<open>count\<close> and the typed field
  operation has run: for protocol, device and command the field is \<open>tmp\<close> and nothing
  else has changed; for the keycode, when \<open>tmp < KEY_MAX\<close> the keycode is \<open>tmp\<close> and bit
  \<open>tmp\<close> has been added to the device's capability set, and when \<open>tmp \<ge> KEY_MAX\<close>
  nothing has changed.
\<close>

theorem item_store_failures:
  "fst (item_store pf (dev, km) a page count) =
     (if dropWhile isdigit page \<noteq> [] \<and> hd (dropWhile isdigit page) \<noteq> CHR 0x0A
        then Inl (- EINVAL)
      else if INT_MAX < dec_value (takeWhile isdigit page) mod 2 ^ BITS_PER_LONG pf
        then Inl (- ERANGE)
      else Inr count)
   \<and> (isl (fst (item_store pf (dev, km) a page count)) \<longrightarrow>
        snd (item_store pf (dev, km) a page count) = (dev, km))
   \<and> (\<not> isl (fst (item_store pf (dev, km) a page count)) \<longrightarrow>
        snd (item_store pf (dev, km) a page count) =
          (case a of
             item_protocol \<Rightarrow>
               (dev, km\<lparr>protocol := int (dec_value (takeWhile isdigit page)
                                              mod 2 ^ BITS_PER_LONG pf)\<rparr>)
           | item_device \<Rightarrow>
               (dev, km\<lparr>device := int (dec_value (takeWhile isdigit page)
                                            mod 2 ^ BITS_PER_LONG pf)\<rparr>)
           | item_command \<Rightarrow>
               (dev, km\<lparr>command := int (dec_value (takeWhile isdigit page)
                                             mod 2 ^ BITS_PER_LONG pf)\<rparr>)
           | item_keycode \<Rightarrow>
               if dec_value (takeWhile isdigit page) mod 2 ^ BITS_PER_LONG pf < KEY_MAX pf
               then (dev\<lparr>keybit := insert (int (dec_value (takeWhile isdigit page)
                                                      mod 2 ^ BITS_PER_LONG pf))
                                             (keybit dev)\<rparr>,
                     km\<lparr>keycode := int (dec_value (takeWhile isdigit page)
                                             mod 2 ^ BITS_PER_LONG pf)\<rparr>)
               else (dev, km)))"
  by (cases a) (simp_all add: item_store_def simple_strtoul_split)

text \<open>
  Witness of C7 as amended: 4000000000 fits 32 bits and exceeds \<open>INT_MAX\<close>, so the write
  fails and changes nothing; \<open>17\<close> and a newline is stored in the device field.
\<close>

theorem item_store_failures_witness:
  "fst (item_store ppc32 (example_dev 11 ''G1'' {}, hd (cg_children example_G1))
          item_device ''4000000000'' 10) = Inl (- ERANGE)
   \<and> snd (item_store ppc32 (example_dev 11 ''G1'' {}, hd (cg_children example_G1))
          item_device ''4000000000'' 10) = (example_dev 11 ''G1'' {}, hd (cg_children example_G1))
   \<and> fst (item_store ppc32 (example_dev 11 ''G1'' {}, hd (cg_children example_G1))
          item_device (''17'' @ [CHR 0x0A]) 3) = Inr 3
   \<and> snd (item_store ppc32 (example_dev 11 ''G1'' {}, hd (cg_children example_G1))
          item_device (''17'' @ [CHR 0x0A]) 3) =
       (example_dev 11 ''G1'' {}, (hd (cg_children example_G1))\<lparr>device := 17\<rparr>)"
  using item_store_failures [where pf = ppc32 and dev = "example_dev 11 ''G1'' {}"
      and km = "hd (cg_children example_G1)" and a = item_device
      and page = "''4000000000''" and count = 10]
    item_store_failures [where pf = ppc32 and dev = "example_dev 11 ''G1'' {}"
      and km = "hd (cg_children example_G1)" and a = item_device
      and page = "''17'' @ [CHR 0x0A]" and count = 3]
  by (simp add: isdigit_def dec_value_def digit_value_def ppc32_def INT_MAX_def)

text \<open>
  Counterexample to C7 as stated. The text \<open>12\<close>, newline, \<open>x\<close> has a letter after the
  number, and the empty text is no number at all: the spec's reading rejects both, the
  code accepts both (storing 12 and 0). The text \<open>12\<close> followed by a blank has only
  white space after the number, and the code rejects it.
\<close>

theorem item_store_invalid_format_counterexample:
  "spec_invalid_format (''12'' @ [CHR 0x0A] @ ''x'')
   \<and> fst (item_store ppc32 (example_dev 11 ''G1'' {}, hd (cg_children example_G1))
            item_protocol (''12'' @ [CHR 0x0A] @ ''x'') 4) = Inr 4
   \<and> spec_invalid_format ''''
   \<and> fst (item_store ppc32 (example_dev 11 ''G1'' {}, hd (cg_children example_G1))
            item_protocol '''' 0) = Inr 0
   \<and> \<not> spec_invalid_format ''12 ''
   \<and> fst (item_store ppc32 (example_dev 11 ''G1'' {}, hd (cg_children example_G1))
            item_protocol ''12 '' 3) = Inl (- EINVAL)"
  by (simp add: spec_invalid_format_def isspace_def example_evals example_G1_def)

text \<open>
  C3, as amended. For every entry and every value \<open>v\<close>, written to the keycode
  attribute as its decimal numeral without leading zeros, alone or followed by a
  newline and anything after it: the code reads \<open>v\<close> into an \<open>unsigned long\<close>, that is, as
  \<open>t = v mod 2 ^ BITS_PER_LONG\<close>, which is \<open>v\<close> itself whenever \<open>v\<close> fits. If
  \<open>t \<ge> KEY_MAX\<close>, the write leaves the entry's keycode and the device's capability set
  unchanged; it reports success, returning \<open>count\<close>, when \<open>t \<le> INT_MAX\<close>, and returns
  the range error \<open>-ERANGE\<close> only when \<open>t > INT_MAX\<close>. If \<open>t < KEY_MAX\<close> and
  \<open>t \<le> INT_MAX\<close>, which also happens for values \<open>v \<ge> KEY_MAX\<close> too large for an
  \<open>unsigned long\<close>, the write stores \<open>t\<close> as the keycode, sets bit \<open>t\<close> and returns
  \<open>count\<close>.
\<close>

theorem keycode_write_out_of_range:
  assumes "rest = [] \<or> hd rest = CHR 0x0A"
  shows "(KEY_MAX pf \<le> v mod 2 ^ BITS_PER_LONG pf \<longrightarrow>
            item_store pf (dev, km) item_keycode (dec_digits v @ rest) count =
              (if INT_MAX < v mod 2 ^ BITS_PER_LONG pf then Inl (- ERANGE) else Inr count,
               dev, km))
     \<and> (v mod 2 ^ BITS_PER_LONG pf < KEY_MAX pf \<and> v mod 2 ^ BITS_PER_LONG pf \<le> INT_MAX \<longrightarrow>
            item_store pf (dev, km) item_keycode (dec_digits v @ rest) count =
              (Inr count,
               dev\<lparr>keybit := insert (int (v mod 2 ^ BITS_PER_LONG pf)) (keybit dev)\<rparr>,
               km\<lparr>keycode := int (v mod 2 ^ BITS_PER_LONG pf)\<rparr>))
     \<and> (v < 2 ^ BITS_PER_LONG pf \<longrightarrow> v mod 2 ^ BITS_PER_LONG pf = v)"
  using assms
  by (auto simp add: item_store_def simple_strtoul_dec_digits_mod rest_not_digit)

text \<open>
  Witness of C3 as amended, on the 32-bit target with \<open>KEY_MAX = 767\<close>: 1000 is ignored
  with success, 3000000000 is refused, and 4294967336, which is 40 modulo \<open>2 ^ 32\<close>, is
  stored as keycode 40.
\<close>

theorem keycode_write_out_of_range_witness:
  "item_store ppc32 (example_dev 11 ''G1'' {30}, hd (cg_children example_G1))
        item_keycode (''1000'' @ [CHR 0x0A]) 5
      = (Inr 5, example_dev 11 ''G1'' {30}, hd (cg_children example_G1))
   \<and> item_store ppc32 (example_dev 11 ''G1'' {30}, hd (cg_children example_G1))
        item_keycode ''3000000000'' 10
      = (Inl (- ERANGE), example_dev 11 ''G1'' {30}, hd (cg_children example_G1))
   \<and> item_store ppc32 (example_dev 11 ''G1'' {30}, hd (cg_children example_G1))
        item_keycode ''4294967336'' 10
      = (Inr 10, example_dev 11 ''G1'' {40, 30},
         (hd (cg_children example_G1))\<lparr>keycode := 40\<rparr>)"
proof -
  have d: "dec_digits 1000 = ''1000''" "dec_digits 3000000000 = ''3000000000''"
    "dec_digits 4294967336 = ''4294967336''"
    by (simp_all add: dec_digits.simps)
  show ?thesis
    using keycode_write_out_of_range [where pf = ppc32 and v = 1000 and rest = "[CHR 0x0A]"
        and dev = "example_dev 11 ''G1'' {30}" and km = "hd (cg_children example_G1)"
        and count = 5]
      keycode_write_out_of_range [where pf = ppc32 and v = 3000000000 and rest = "[]"
        and dev = "example_dev 11 ''G1'' {30}" and km = "hd (cg_children example_G1)"
        and count = 10]
      keycode_write_out_of_range [where pf = ppc32 and v = 4294967336 and rest = "[]"
        and dev = "example_dev 11 ''G1'' {30}" and km = "hd (cg_children example_G1)"
        and count = 10]
    by (simp add: d ppc32_def INT_MAX_def example_dev_def)
qed

text \<open>
  Counterexample to C3 as stated, on the 32-bit target with \<open>KEY_MAX = 767\<close>: writing
  \<open>767\<close> to the keycode attribute returns \<open>count\<close>, not an error; and writing
  4294967336, which is above \<open>KEY_MAX\<close> and is read as 40, changes the keycode to 40
  and sets bit 40.
\<close>

theorem keycode_write_out_of_range_counterexample:
  "KEY_MAX ppc32 \<le> 767
   \<and> item_store ppc32 (example_dev 11 ''G1'' {30}, hd (cg_children example_G1))
        item_keycode ''767'' 3
      = (Inr 3, example_dev 11 ''G1'' {30}, hd (cg_children example_G1))
   \<and> KEY_MAX ppc32 \<le> 4294967336
   \<and> item_store ppc32 (example_dev 11 ''G1'' {30}, hd (cg_children example_G1))
        item_keycode ''4294967336'' 10
      = (Inr 10, example_dev 11 ''G1'' {40, 30},
         (hd (cg_children example_G1))\<lparr>keycode := 40\<rparr>)"
  by (simp add: example_evals example_G1_def)

text \<open>
  C6, as amended. For every attribute and every value \<open>v \<le> INT_MAX\<close> (below \<open>KEY_MAX\<close>
  when the attribute is the keycode), writing the decimal numeral of \<open>v\<close> without
  leading zeros, alone or followed by a newline, succeeds, and reading the attribute
  back yields that numeral followed by a newline.
\<close>

theorem write_then_read:
  assumes "v \<le> INT_MAX" and "v < 2 ^ BITS_PER_LONG pf"
    and "a = item_keycode \<longrightarrow> v < KEY_MAX pf"
    and "rest = [] \<or> hd rest = CHR 0x0A"
  shows "fst (item_store pf (dev, km) a (dec_digits v @ rest) count) = Inr count
     \<and> item_show (snd (snd (item_store pf (dev, km) a (dec_digits v @ rest) count))) a
         = dec_digits v @ [CHR 0x0A]"
proof -
  have parse: "simple_strtoul pf (dec_digits v @ rest) = (v, rest)"
    using assms(2,4) by (simp add: simple_strtoul_dec_digits rest_not_digit)
  from assms(1,3,4) parse show ?thesis
    by (cases a) (auto simp add: item_store_def item_show_def sprintf_d_nat)
qed

text \<open>Witness of C6 as amended: the keycode attribute, the text \<open>45\<close> and a newline.\<close>

theorem write_then_read_witness:
  "fst (item_store ppc32 (example_dev 11 ''G1'' {30}, hd (cg_children example_G1))
          item_keycode (''45'' @ [CHR 0x0A]) 3) = Inr 3
   \<and> item_show (snd (snd (item_store ppc32 (example_dev 11 ''G1'' {30},
          hd (cg_children example_G1)) item_keycode (''45'' @ [CHR 0x0A]) 3))) item_keycode
      = ''45'' @ [CHR 0x0A]"
proof -
  have d: "dec_digits 45 = ''45''"
    by (simp add: dec_digits.simps)
  show ?thesis
    using write_then_read [of 45 ppc32 item_keycode "[CHR 0x0A]" "example_dev 11 ''G1'' {30}"
        "hd (cg_children example_G1)" 3]
    by (simp add: d ppc32_def INT_MAX_def)
qed

text \<open>
  Counterexample to C6 as stated: the text \<open>5\<close> is accepted by the write, and the read
  yields \<open>5\<close> followed by a newline, which is not the text written.
\<close>

theorem write_then_read_counterexample:
  "fst (item_store ppc32 (example_dev 11 ''G1'' {30}, hd (cg_children example_G1))
          item_protocol ''5'' 1) = Inr 1
   \<and> item_show (snd (snd (item_store ppc32 (example_dev 11 ''G1'' {30},
          hd (cg_children example_G1)) item_protocol ''5'' 1))) item_protocol
      = ''5'' @ [CHR 0x0A]
   \<and> item_show (snd (snd (item_store ppc32 (example_dev 11 ''G1'' {30},
          hd (cg_children example_G1)) item_protocol ''5'' 1))) item_protocol
      \<noteq> ''5''"
  by (simp add: example_evals example_G1_def item_show_def sprintf_d_def dec_digits.simps)

section \<open>Keycodes and capability bits\<close>




section \<open>Creating and removing groups\<close>

text \<open>
  C8. If the registration of the input device fails while a group is created,
  \<open>make_remote\<close> returns the error code of the registration, and the kernel is as it
  was before the call: the device and the group that had been allocated are freed, and
  nothing is registered. \<open>create_group\<close> then fails with the same error and leaves the
  list of groups unchanged. The addresses the allocators hand out are fresh.
\<close>

theorem make_remote_register_failure:
  assumes "reg \<noteq> 0" and "r \<notin> kmem k" and "h \<notin> input_devs k"
    and "name \<notin> set (map cg_name remotes)"
  shows "make_remote k (Some r) (Some h) reg name = (Inl reg, k)
     \<and> create_group (k, remotes) (Some r) (Some h) reg name = (Inl reg, k, remotes)"
proof -
  have "make_remote k (Some r) (Some h) reg name = (Inl reg, k)"
    using assms(1-3)
    by (simp add: make_remote_def kzalloc_def input_allocate_device_def
        input_register_device_def input_free_device_def kfree_def)
  then show ?thesis
    using assms(4) by (simp add: create_group_def)
qed

text \<open>Witness of C8: the registration answers \<open>-ENOMEM\<close>.\<close>

theorem make_remote_register_failure_witness:
  "make_remote kernel0 (Some 10) (Some 11) (- 12) ''tv'' = (Inl (- 12), kernel0)
   \<and> create_group (kernel0, [example_G1]) (Some 10) (Some 11) (- 12) ''tv'' =
       (Inl (- 12), kernel0, [example_G1])"
  using make_remote_register_failure [of "- 12" 10 kernel0 11 "''tv''" "[example_G1]"]
  by (simp add: kernel0_def example_G1_def)

text \<open>
  C5. The claim has the endpoint of a destroyed group both unregistered from the host
  input system and released. \<open>make_remote\<close> registers the device it allocates;
  \<open>remote_release\<close>, the teardown of the group, frees the device and the group and does
  not unregister the device. In the run below a group is made with addresses 30 and 31
  and a successful registration, and then released: device 31 is no longer allocated,
  and it is still registered.
\<close>

theorem remote_release_leaves_registration:
  "make_remote kernel0 (Some 30) (Some 31) 0 ''tv'' =
     (Inr (example_two\<lparr>cg_children := []\<rparr>),
      \<lparr>kmem = {30}, input_devs = {31}, input_registered = {31}\<rparr>)
   \<and> remote_release \<lparr>kmem = {30}, input_devs = {31}, input_registered = {31}\<rparr>
        (example_two\<lparr>cg_children := []\<rparr>) =
     \<lparr>kmem = {}, input_devs = {}, input_registered = {31}\<rparr>"
  by (simp add: make_remote_def kzalloc_def input_allocate_device_def
      input_register_device_def kernel0_def example_two_def example_dev_def
      remote_release_def input_free_device_def kfree_def)

end
